theory Spec2Isabelle
  imports Main "HOL-Library.AList"
begin

section \<open>Machine type checkers for scitypes: \<^verbatim>\<open>sktime/datatypes/_check.py\<close>\<close>

subsection \<open>Python values, errors, validators\<close>

text \<open>
  The Python values that travel through the module as data: the \<^verbatim>\<open>mtype\<close>
  argument (a \<^verbatim>\<open>str\<close>, a \<^verbatim>\<open>list\<close>, or something else
  such as an \<^verbatim>\<open>int\<close>) and the error messages (a \<^verbatim>\<open>str\<close>,
  \<^verbatim>\<open>None\<close>, or a list of them).
\<close>

datatype pyval = PNone | PStr string | PInt int | PList "pyval list"

text \<open>\<^verbatim>\<open>isinstance(x, str)\<close>\<close>

fun is_str :: "pyval \<Rightarrow> bool" where
  "is_str (PStr s) = True"
| "is_str x = False"

text \<open>
  One constructor per \<^verbatim>\<open>raise\<close> of the module, carrying the values
  interpolated into the message.
  \<^item> \<open>ValueError_list\<close>: line 79, \<^verbatim>\<open>ValueError("list must be a string or list of strings")\<close>
  \<^item> \<open>ValueError_mtype\<close>: line 81, \<^verbatim>\<open>ValueError("mtype must be a string or list of strings")\<close>
  \<^item> \<open>TypeError_no_check m s\<close>: line 92, \<^verbatim>\<open>TypeError(f"no check defined for mtype {m}, scitype {scitype}")\<close>
  \<^item> \<open>TypeError_msg msg\<close>: line 147, \<^verbatim>\<open>TypeError(res[1])\<close>
  \<^item> \<open>TypeError_unsupported s\<close>: line 173, \<^verbatim>\<open>TypeError(as_scitype + " is not a supported scitype")\<close>
  \<^item> \<open>TypeError_None_plus_str\<close>: line 173 when \<^verbatim>\<open>as_scitype\<close> is \<^verbatim>\<open>None\<close>:
    the concatenation \<^verbatim>\<open>None + "..."\<close> itself raises a \<^verbatim>\<open>TypeError\<close>
  \<^item> \<open>TypeError_ambiguous res\<close>: line 182, \<^verbatim>\<open>TypeError(f"Error in check_is, more than one mtype identified: {res}")\<close>
  \<^item> \<open>TypeError_empty\<close>: line 185, \<^verbatim>\<open>TypeError("")\<close>
  \<^item> \<open>TypeError_not_subscriptable\<close>: \<^verbatim>\<open>res[0]\<close> on a \<^verbatim>\<open>bool\<close>
  \<^item> \<open>ValueError_unsupported_mtype m\<close>: raised inside \<^verbatim>\<open>mtype_to_scitype\<close>, called in
    line 89, for a string \<open>m\<close> that is no mtype of its register
\<close>

datatype error =
    ValueError_list
  | ValueError_mtype
  | TypeError_no_check string string
  | TypeError_msg pyval
  | TypeError_unsupported string
  | TypeError_None_plus_str
  | TypeError_ambiguous "string list"
  | TypeError_empty
  | TypeError_not_subscriptable
  | ValueError_unsupported_mtype string

text \<open>
  What \<^verbatim>\<open>check_is\<close> hands back: a bare \<^verbatim>\<open>bool\<close>, or the triple
  \<^verbatim>\<open>(valid, msg, metadata)\<close>. The metadata dictionary is never inspected by
  the module, so its type \<open>'md\<close> is left open.
\<close>

datatype 'md res = RBool bool | RTriple bool pyval "'md option"

text \<open>
  The checkers stored in \<^verbatim>\<open>check_dict\<close> come from
  \<^verbatim>\<open>sktime.datatypes._series\<close> and \<^verbatim>\<open>sktime.datatypes._panel\<close>.
  A checker is called as \<^verbatim>\<open>f(obj, return_metadata=..., var_name=...)\<close> and
  answers with a \<^verbatim>\<open>bool\<close> when \<^verbatim>\<open>return_metadata\<close> is false and
  with a triple when it is true; \<open>plain\<close> is the first behaviour and \<open>full\<close> the
  second. The object is \<open>None\<close> for Python's \<^verbatim>\<open>None\<close> and \<open>Some x\<close>
  for anything else.
\<close>

record ('o, 'md) validator =
  plain :: "'o option \<Rightarrow> string \<Rightarrow> bool"
  full :: "'o option \<Rightarrow> string \<Rightarrow> bool \<times> pyval \<times> 'md option"

subsection \<open>The registry \<^verbatim>\<open>check_dict\<close>\<close>

text \<open>
  A Python \<^verbatim>\<open>dict\<close> keeps its keys in insertion order and holds each key once;
  it is an association list here. \<^verbatim>\<open>d[k] = v\<close> is \<^const>\<open>AList.update\<close>
  (overwrite in place, else append), and \<^verbatim>\<open>d.update(other)\<close> stores the
  items of \<^verbatim>\<open>other\<close> one after the other.
\<close>

type_synonym ('o, 'md) registry = "((string \<times> string) \<times> ('o, 'md) validator) list"

definition dict_update :: "('k \<times> 'v) list \<Rightarrow> ('k \<times> 'v) list \<Rightarrow> ('k \<times> 'v) list" where
  "dict_update d other = foldl (\<lambda>d kv. AList.update (fst kv) (snd kv) d) d other"

text \<open>Lines 30 to 32: the pooled registry, built from the two imported ones.\<close>

definition check_dict :: "('o, 'md) registry \<Rightarrow> ('o, 'md) registry \<Rightarrow> ('o, 'md) registry" where
  "check_dict check_dict_Series check_dict_Panel =
     dict_update (dict_update [] check_dict_Series) check_dict_Panel"

subsection \<open>\<^verbatim>\<open>check_is\<close>\<close>

text \<open>The inner function \<^verbatim>\<open>ret\<close>, lines 69 to 73.\<close>

definition ret :: "bool \<Rightarrow> pyval \<Rightarrow> 'md option \<Rightarrow> bool \<Rightarrow> 'md res" where
  "ret valid msg metadata return_metadata =
     (if return_metadata then RTriple valid msg metadata else RBool valid)"

text \<open>
  Lines 75 to 81: a string becomes a one-element list, a list must hold strings only,
  anything else is refused.
\<close>

definition mtype_as_list :: "pyval \<Rightarrow> error + string list" where
  "mtype_as_list mt =
     (case mt of
        PStr s \<Rightarrow> Inr [s]
      | PList xs \<Rightarrow>
          if list_all is_str xs then Inr [s. PStr s \<leftarrow> xs] else Inl ValueError_list
      | _ \<Rightarrow> Inl ValueError_mtype)"

text \<open>
  Lines 87 to 109. The loop carries the local variable \<^verbatim>\<open>scitype\<close> (assigned
  in line 89 when it is still \<^verbatim>\<open>None\<close>) and the list \<^verbatim>\<open>msg\<close>.
  It leaves by \<^verbatim>\<open>raise\<close> (line 92), by \<^verbatim>\<open>return res\<close> (line 102),
  or by running out of mtypes, and then lines 106 to 109 follow. The function
  \<^verbatim>\<open>mtype_to_scitype\<close> is imported from \<^verbatim>\<open>sktime.datatypes._registry\<close>
  and is a parameter: it returns a scitype or raises, and nothing around the call of
  line 89 catches what it raises.
\<close>

fun check_loop ::
  "('o, 'md) registry \<Rightarrow> (string \<Rightarrow> error + string) \<Rightarrow> 'o option \<Rightarrow> bool \<Rightarrow> string \<Rightarrow>
   string list \<Rightarrow> string option \<Rightarrow> pyval list \<Rightarrow> error + 'md res" where
  "check_loop cd mtype_to_scitype obj return_metadata var_name [] scitype msg =
     Inr (ret False (if length msg = 1 then msg ! 0 else PList msg) None return_metadata)"
| "check_loop cd mtype_to_scitype obj return_metadata var_name (m # ms) scitype msg =
     (case (case scitype of None \<Rightarrow> mtype_to_scitype m | Some s \<Rightarrow> Inr s) of
        Inl e \<Rightarrow> Inl e
      | Inr scitype' \<Rightarrow>
          (case map_of cd (m, scitype') of
             None \<Rightarrow> Inl (TypeError_no_check m scitype')
           | Some chk \<Rightarrow>
               if return_metadata then
                 (case full chk obj var_name of
                    (check_passed, res1, res2) \<Rightarrow>
                      if check_passed then Inr (RTriple check_passed res1 res2)
                      else check_loop cd mtype_to_scitype obj return_metadata var_name ms
                             (Some scitype') (msg @ [res1]))
               else
                 (let check_passed = plain chk obj var_name in
                  if check_passed then Inr (RBool check_passed)
                  else check_loop cd mtype_to_scitype obj return_metadata var_name ms
                         (Some scitype') msg)))"

definition check_is ::
  "('o, 'md) registry \<Rightarrow> (string \<Rightarrow> error + string) \<Rightarrow> 'o option \<Rightarrow> pyval \<Rightarrow> string option \<Rightarrow>
   bool \<Rightarrow> string \<Rightarrow> error + 'md res" where
  "check_is cd mtype_to_scitype obj mt scitype return_metadata var_name =
     (case mtype_as_list mt of
        Inl e \<Rightarrow> Inl e
      | Inr ms \<Rightarrow> check_loop cd mtype_to_scitype obj return_metadata var_name ms scitype [])"

subsection \<open>\<^verbatim>\<open>check_raise\<close>\<close>

text \<open>
  Lines 135 to 147. An exception of \<^verbatim>\<open>check_is\<close> passes through.
  \<^verbatim>\<open>res[0]\<close> and \<^verbatim>\<open>res[1]\<close> read the triple; on a bare
  \<^verbatim>\<open>bool\<close> the indexing itself would raise.
\<close>

definition check_raise ::
  "('o, 'md) registry \<Rightarrow> (string \<Rightarrow> error + string) \<Rightarrow> 'o option \<Rightarrow> pyval \<Rightarrow> string option \<Rightarrow>
   string \<Rightarrow> error + bool" where
  "check_raise cd mtype_to_scitype obj mt scitype var_name =
     (case check_is cd mtype_to_scitype obj mt scitype True var_name of
        Inl e \<Rightarrow> Inl e
      | Inr (RTriple res0 res1 res2) \<Rightarrow> if res0 then Inr True else Inl (TypeError_msg res1)
      | Inr (RBool b) \<Rightarrow> Inl TypeError_not_subscriptable)"

subsection \<open>\<^verbatim>\<open>mtype\<close>\<close>

text \<open>
  A list comprehension whose body may raise stops at the first exception.
\<close>

fun collect :: "(error + 'a) list \<Rightarrow> error + 'a list" where
  "collect [] = Inr []"
| "collect (x # xs) =
     (case x of
        Inl e \<Rightarrow> Inl e
      | Inr v \<Rightarrow> (case collect xs of Inl e \<Rightarrow> Inl e | Inr vs \<Rightarrow> Inr (v # vs)))"

text \<open>
  Truth value of a result of \<^verbatim>\<open>check_is\<close>: the \<^verbatim>\<open>bool\<close> itself; a
  triple is a non-empty tuple. \<^verbatim>\<open>np.sum\<close> of the boolean array counts its
  \<^verbatim>\<open>True\<close> entries.
\<close>

fun truthy :: "'md res \<Rightarrow> bool" where
  "truthy (RBool b) = b"
| "truthy (RTriple b msg md) = True"

definition np_sum :: "'md res list \<Rightarrow> nat" where
  "np_sum is_mtype = length (filter truthy is_mtype)"

text \<open>
  Lines 167 to 187. \<^verbatim>\<open>as_scitype\<close> defaults to \<^verbatim>\<open>None\<close>, which is in
  no list of scitype names, and building the message of line 173 from it raises.
  The calls of \<^verbatim>\<open>check_is\<close> in line 177 use its defaults
  \<^verbatim>\<open>return_metadata=False\<close> and \<^verbatim>\<open>var_name="obj"\<close>.
\<close>

definition mtype ::
  "('o, 'md) registry \<Rightarrow> (string \<Rightarrow> error + string) \<Rightarrow> 'o option \<Rightarrow> string option \<Rightarrow>
   error + string option" where
  "mtype cd mtype_to_scitype obj as_scitype =
     (case obj of
        None \<Rightarrow> Inr None
      | Some ob \<Rightarrow>
          (let valid_as_scitypes = remdups [snd x. x \<leftarrow> map fst cd] in
           case as_scitype of
             None \<Rightarrow> Inl TypeError_None_plus_str
           | Some s \<Rightarrow>
               if s \<notin> set valid_as_scitypes then Inl (TypeError_unsupported s)
               else
                 (let mtypes = [fst x. x \<leftarrow> map fst cd, snd x = s] in
                  case collect [check_is cd mtype_to_scitype obj (PStr m) (Some s) False ''obj''.
                                  m \<leftarrow> mtypes] of
                    Inl e \<Rightarrow> Inl e
                  | Inr is_mtype \<Rightarrow>
                      (let res = [mtypes ! i. i \<leftarrow> [0..<length mtypes], truthy (is_mtype ! i)] in
                       if np_sum is_mtype > 1 then Inl (TypeError_ambiguous res)
                       else if np_sum is_mtype < 1 then Inl TypeError_empty
                       else Inr (Some (res ! 0))))))"

section \<open>Vocabulary of the statements\<close>

text \<open>
  The spec names the failures by kind; the module raises Python's built-in classes:
  \<^item> InputError is \<^verbatim>\<open>ValueError\<close>: \<open>ValueError_list\<close>, \<open>ValueError_mtype\<close>;
  \<^item> DispatchError is the \<^verbatim>\<open>TypeError\<close> of a missing entry: \<open>TypeError_no_check\<close>,
    \<open>TypeError_unsupported\<close>, and \<open>TypeError_empty\<close> when no mtype matches;
  \<^item> ValidationError is \<open>TypeError_msg\<close>, raised by \<^verbatim>\<open>check_raise\<close>;
  \<^item> InternalConsistencyError is \<open>TypeError_ambiguous\<close>.
\<close>

text \<open>
  What a checker says about an object (\<^verbatim>\<open>check_passed\<close>, lines 96 to 99) and what
  it hands back (\<^verbatim>\<open>res\<close>, line 94), in either mode.
\<close>

definition passes :: "('o, 'md) validator \<Rightarrow> 'o option \<Rightarrow> bool \<Rightarrow> string \<Rightarrow> bool" where
  "passes chk obj return_metadata var_name =
     (if return_metadata then fst (full chk obj var_name) else plain chk obj var_name)"

definition checker_result :: "('o, 'md) validator \<Rightarrow> 'o option \<Rightarrow> bool \<Rightarrow> string \<Rightarrow> 'md res" where
  "checker_result chk obj return_metadata var_name =
     (if return_metadata
      then (case full chk obj var_name of (res0, res1, res2) \<Rightarrow> RTriple res0 res1 res2)
      else RBool (plain chk obj var_name))"

text \<open>
  \<open>rejected\<close>: the pair \<open>(m, c)\<close> has a checker and the checker says no.
  \<open>failure_msg\<close>: the message \<^verbatim>\<open>res[1]\<close> of that checker.
\<close>

definition rejected ::
  "('o, 'md) registry \<Rightarrow> string \<Rightarrow> 'o option \<Rightarrow> bool \<Rightarrow> string \<Rightarrow> string \<Rightarrow> bool" where
  "rejected cd c obj return_metadata var_name m =
     (case map_of cd (m, c) of
        None \<Rightarrow> False
      | Some chk \<Rightarrow> \<not> passes chk obj return_metadata var_name)"

definition failure_msg :: "('o, 'md) registry \<Rightarrow> string \<Rightarrow> 'o option \<Rightarrow> string \<Rightarrow> string \<Rightarrow> pyval" where
  "failure_msg cd c obj var_name m =
     (case map_of cd (m, c) of
        None \<Rightarrow> PNone
      | Some chk \<Rightarrow> fst (snd (full chk obj var_name)))"

text \<open>
  The scitype of one mtype \<open>m\<close> taken by itself, as the docstring describes it (lines 44
  to 45): the caller's \<^verbatim>\<open>scitype\<close>, or, when the caller gave none, the one
  inferred from \<open>m\<close>. It does not depend on the other mtypes of the call.
\<close>

definition category_of :: "(string \<Rightarrow> error + string) \<Rightarrow> string option \<Rightarrow> string \<Rightarrow> error + string" where
  "category_of mtype_to_scitype scitype m =
     (case scitype of None \<Rightarrow> mtype_to_scitype m | Some s \<Rightarrow> Inr s)"


text \<open>
  \<open>registered_mtypes\<close> is the array \<^verbatim>\<open>mtypes\<close> of line 175, and \<open>accepts\<close>
  says that the checker registered for \<open>(m, s)\<close> passes the object in the mode of line 177.
\<close>

definition registered_mtypes :: "('o, 'md) registry \<Rightarrow> string \<Rightarrow> string list" where
  "registered_mtypes cd s = [fst x. x \<leftarrow> map fst cd, snd x = s]"

definition accepts :: "('o, 'md) registry \<Rightarrow> 'o option \<Rightarrow> string \<Rightarrow> string \<Rightarrow> bool" where
  "accepts cd obj s m = (case map_of cd (m, s) of None \<Rightarrow> False | Some chk \<Rightarrow> plain chk obj ''obj'')"

section \<open>A sample registry\<close>

text \<open>
  Three stand-ins for data containers, two checkers for the scitype \<^verbatim>\<open>Series\<close> and
  one for \<^verbatim>\<open>Panel\<close>, pooled as lines 30 to 32 do. The sample
  \<^verbatim>\<open>mtype_to_scitype\<close> knows these three mtypes and raises its
  \<^verbatim>\<open>ValueError\<close> for every other string. \<open>lenient_checker\<close> passes
  everything; \<open>overlapping_dict\<close> registers it beside a strict one, so that two checkers
  of one scitype pass the same object, which is what line 182 is there to report.
\<close>

datatype sample_obj = Univ_series | Multi_frame | Nested_frame

type_synonym metadata = "(string \<times> bool) list"

definition sample_checker :: "(sample_obj \<Rightarrow> bool) \<Rightarrow> string \<Rightarrow> (sample_obj, metadata) validator" where
  "sample_checker ok why =
     \<lparr> plain = (\<lambda>obj var_name. case obj of None \<Rightarrow> False | Some x \<Rightarrow> ok x),
       full = (\<lambda>obj var_name.
         case obj of
           None \<Rightarrow> (False, PStr (var_name @ why), None)
         | Some x \<Rightarrow>
             if ok x
             then (True, PNone, Some [(''is_univariate'', x = Univ_series), (''is_equally_spaced'', True)])
             else (False, PStr (var_name @ why), None)) \<rparr>"

definition lenient_checker :: "(sample_obj, metadata) validator" where
  "lenient_checker =
     \<lparr> plain = (\<lambda>obj var_name. True),
       full = (\<lambda>obj var_name. (True, PNone, Some [(''is_univariate'', True), (''is_equally_spaced'', True)])) \<rparr>"

definition sample_Series :: "(sample_obj, metadata) registry" where
  "sample_Series =
     [((''pd.Series'', ''Series''), sample_checker (\<lambda>x. x = Univ_series) '' must be a pd.Series''),
      ((''pd.DataFrame'', ''Series''), sample_checker (\<lambda>x. x = Multi_frame) '' must be a pd.DataFrame'')]"

definition sample_Panel :: "(sample_obj, metadata) registry" where
  "sample_Panel =
     [((''nested_univ'', ''Panel''), sample_checker (\<lambda>x. x = Nested_frame) '' must be a nested pd.DataFrame'')]"

definition sample_dict :: "(sample_obj, metadata) registry" where
  "sample_dict = check_dict sample_Series sample_Panel"

definition sample_mtype_to_scitype :: "string \<Rightarrow> error + string" where
  "sample_mtype_to_scitype m =
     (if m = ''pd.Series'' then Inr ''Series''
      else if m = ''pd.DataFrame'' then Inr ''Series''
      else if m = ''nested_univ'' then Inr ''Panel''
      else Inl (ValueError_unsupported_mtype m))"

definition overlapping_dict :: "(sample_obj, metadata) registry" where
  "overlapping_dict =
     check_dict
       [((''pd.Series'', ''Series''), sample_checker (\<lambda>x. x = Univ_series) '' must be a pd.Series''),
        ((''anything'', ''Series''), lenient_checker)] []"

section \<open>Lemmas\<close>

subsection \<open>The registry\<close>

lemma distinct_dict_update:
  "distinct (map fst d) \<Longrightarrow> distinct (map fst (dict_update d other))"
  unfolding dict_update_def
  by (induction other arbitrary: d) (simp_all add: distinct_update)

lemma distinct_check_dict: "distinct (map fst (check_dict series panel))"
  by (simp add: check_dict_def distinct_dict_update)

lemma sample_dict_eq:
  "sample_dict =
     [((''pd.Series'', ''Series''), sample_checker (\<lambda>x. x = Univ_series) '' must be a pd.Series''),
      ((''pd.DataFrame'', ''Series''), sample_checker (\<lambda>x. x = Multi_frame) '' must be a pd.DataFrame''),
      ((''nested_univ'', ''Panel''), sample_checker (\<lambda>x. x = Nested_frame) '' must be a nested pd.DataFrame'')]"
  by (simp add: sample_dict_def check_dict_def dict_update_def sample_Series_def sample_Panel_def)

lemma overlapping_dict_eq:
  "overlapping_dict =
     [((''pd.Series'', ''Series''), sample_checker (\<lambda>x. x = Univ_series) '' must be a pd.Series''),
      ((''anything'', ''Series''), lenient_checker)]"
  by (simp add: overlapping_dict_def check_dict_def dict_update_def)

subsection \<open>The mtype argument\<close>

lemma strs_map_PStr: "[s. PStr s \<leftarrow> map PStr ms] = ms"
  by (induction ms) (simp_all add: o_def)

lemma list_all_is_str_map: "list_all is_str (map PStr ms)"
  by (induction ms) auto

lemma mtype_as_list_PList: "mtype_as_list (PList (map PStr ms)) = Inr ms"
  using strs_map_PStr [of ms] list_all_is_str_map [of ms] by (simp add: mtype_as_list_def)





subsection \<open>The loop of check_is\<close>

lemma check_loop_pin:
  assumes "\<forall>m\<in>set ms. category_of f scitype m = Inr c"
  shows "check_loop cd f obj rm vn ms scitype msg = check_loop cd f obj rm vn ms (Some c) msg"
proof (cases ms)
  case Nil
  then show ?thesis by simp
next
  case (Cons m rest)
  with assms have "category_of f scitype m = Inr c" by simp
  then have "(case scitype of None \<Rightarrow> f m | Some s \<Rightarrow> Inr s) = Inr c"
    by (simp add: category_of_def)
  with Cons show ?thesis by simp
qed

lemma check_loop_derivation_fails:
  "f m = Inl e \<Longrightarrow> check_loop cd f obj rm vn (m # rest) None msg = Inl e"
  by simp

lemma check_loop_skip:
  assumes "\<forall>m\<in>set pre. rejected cd c obj rm vn m"
  shows "check_loop cd f obj rm vn (pre @ rest) (Some c) msg =
         check_loop cd f obj rm vn rest (Some c)
           (if rm then msg @ map (failure_msg cd c obj vn) pre else msg)"
  using assms
proof (induction pre arbitrary: msg)
  case Nil
  then show ?case by simp
next
  case (Cons m pre)
  from Cons.prems obtain chk where chk: "map_of cd (m, c) = Some chk"
    and no: "\<not> passes chk obj rm vn"
    by (auto simp: rejected_def split: option.splits)
  from Cons.prems have rest: "\<forall>m\<in>set pre. rejected cd c obj rm vn m" by simp
  show ?case
  proof (cases rm)
    case True
    with no have "\<not> fst (full chk obj vn)" by (simp add: passes_def)
    then show ?thesis
      using chk True Cons.IH [OF rest, of "msg @ [fst (snd (full chk obj vn))]"]
      by (cases "full chk obj vn") (simp add: failure_msg_def)
  next
    case False
    with no have "\<not> plain chk obj vn" by (simp add: passes_def)
    then show ?thesis
      using chk False Cons.IH [OF rest, of msg] by simp
  qed
qed

lemma check_loop_hit:
  assumes "map_of cd (t, c) = Some chk" and "passes chk obj rm vn"
  shows "check_loop cd f obj rm vn (t # post) (Some c) msg = Inr (checker_result chk obj rm vn)"
  using assms by (auto simp: passes_def checker_result_def split: prod.splits)



text \<open>
  While all mtypes of a call have one scitype \<open>c\<close>: the first checker that passes the
  object decides, whatever follows it; and when every checker rejects the object, the
  messages come back in order, a single one bare.
\<close>

lemma check_is_first_success:
  assumes "\<forall>m\<in>set (pre @ t # post). category_of f scitype m = Inr c"
    and "\<forall>m\<in>set pre. rejected cd c obj rm vn m"
    and "map_of cd (t, c) = Some chk"
    and "passes chk obj rm vn"
  shows "check_is cd f obj (PList (map PStr (pre @ t # post))) scitype rm vn =
           Inr (checker_result chk obj rm vn)"
proof -
  have "check_is cd f obj (PList (map PStr (pre @ t # post))) scitype rm vn =
        check_loop cd f obj rm vn (pre @ t # post) scitype []"
    by (simp only: check_is_def mtype_as_list_PList sum.case)
  also have "\<dots> = check_loop cd f obj rm vn (pre @ t # post) (Some c) []"
    using assms(1) by (rule check_loop_pin)
  also have "\<dots> = check_loop cd f obj rm vn (t # post) (Some c)
                        (if rm then [] @ map (failure_msg cd c obj vn) pre else [])"
    using assms(2) by (rule check_loop_skip)
  also have "\<dots> = Inr (checker_result chk obj rm vn)"
    using assms(3,4) by (rule check_loop_hit)
  finally show ?thesis .
qed

lemma check_is_all_fail:
  assumes "mtype_as_list mt = Inr ms"
    and "\<forall>m\<in>set ms. category_of f scitype m = Inr c"
    and "\<forall>m\<in>set ms. rejected cd c obj True vn m"
  shows "check_is cd f obj mt scitype True vn =
           Inr (RTriple False
                  (if length ms = 1 then failure_msg cd c obj vn (hd ms)
                   else PList (map (failure_msg cd c obj vn) ms))
                  None)"
proof -
  have "check_is cd f obj mt scitype True vn = check_loop cd f obj True vn ms scitype []"
    using assms(1) by (simp add: check_is_def)
  also have "\<dots> = check_loop cd f obj True vn ms (Some c) []"
    using assms(2) by (rule check_loop_pin)
  also have "\<dots> = check_loop cd f obj True vn [] (Some c)
                        (if True then [] @ map (failure_msg cd c obj vn) ms else [])"
    using check_loop_skip [OF assms(3), of f "[]" "[]"] by simp
  also have "\<dots> = Inr (RTriple False
                  (if length ms = 1 then failure_msg cd c obj vn (hd ms)
                   else PList (map (failure_msg cd c obj vn) ms))
                  None)"
    by (cases ms) (simp_all add: ret_def)
  finally show ?thesis .
qed

lemma check_loop_full_mode:
  "check_loop cd f obj True vn ms scitype msg = Inr r \<Longrightarrow> \<exists>valid m md. r = RTriple valid m md"
proof (induction ms arbitrary: scitype msg)
  case Nil
  then show ?case by (auto simp: ret_def)
next
  case (Cons m ms)
  then show ?case
    by (auto split: sum.splits option.splits if_splits prod.splits simp: Let_def)
qed

lemma check_is_full_mode:
  "check_is cd f obj mt scitype True vn = Inr r \<Longrightarrow> \<exists>valid msg md. r = RTriple valid msg md"
  by (auto simp: check_is_def split: sum.splits dest: check_loop_full_mode)

lemma check_is_registered_plain:
  assumes "map_of cd (m, s) = Some chk"
  shows "check_is cd f obj (PStr m) (Some s) False vn = Inr (RBool (plain chk obj vn))"
  using assms by (simp add: check_is_def mtype_as_list_def ret_def Let_def)

lemma check_is_unregistered:
  assumes "map_of cd (m, s) = None"
  shows "check_is cd f obj (PStr m) (Some s) rm vn = Inl (TypeError_no_check m s)"
  using assms by (simp add: check_is_def mtype_as_list_def)

lemma accepts_iff_check_is:
  "accepts cd obj s m \<longleftrightarrow> check_is cd f obj (PStr m) (Some s) False ''obj'' = Inr (RBool True)"
  by (cases "map_of cd (m, s)")
    (simp_all add: accepts_def check_is_registered_plain check_is_unregistered)

subsection \<open>The comprehensions of mtype\<close>

lemma collect_all_Inr:
  "\<forall>x\<in>set xs. g x = Inr (h x) \<Longrightarrow> collect (map g xs) = Inr (map h xs)"
  by (induction xs) simp_all

lemma concat_map_if: "concat (map (\<lambda>i. if R i then [g i] else []) ns) = map g (filter R ns)"
  by (induction ns) simp_all

lemma pick_by_index:
  "[xs ! i. i \<leftarrow> [0..<length xs], P (map h xs ! i)] = filter (\<lambda>x. P (h x)) xs"
proof -
  have "[xs ! i. i \<leftarrow> [0..<length xs], P (map h xs ! i)] =
        map ((!) xs) (filter (\<lambda>i. P (map h xs ! i)) [0..<length xs])"
    by (rule concat_map_if)
  also have "filter (\<lambda>i. P (map h xs ! i)) [0..<length xs] =
             filter (\<lambda>i. P (h (xs ! i))) [0..<length xs]"
    by (rule filter_cong) simp_all
  also have "map ((!) xs) (filter (\<lambda>i. P (h (xs ! i))) [0..<length xs]) =
             filter (\<lambda>x. P (h x)) (map ((!) xs) [0..<length xs])"
    by (simp add: filter_map o_def)
  also have "map ((!) xs) [0..<length xs] = xs"
    by (rule map_nth)
  finally show ?thesis .
qed

lemma registered_mtypes_filter:
  "registered_mtypes cd s = map fst (filter (\<lambda>k. snd k = s) (map fst cd))"
  unfolding registered_mtypes_def by (rule concat_map_if)

lemma set_registered_mtypes: "set (registered_mtypes cd s) = {m. (m, s) \<in> fst ` set cd}"
proof -
  have "set (registered_mtypes cd s) = fst ` {k \<in> fst ` set cd. snd k = s}"
    by (simp add: registered_mtypes_filter)
  also have "\<dots> = {m. (m, s) \<in> fst ` set cd}"
    by force
  finally show ?thesis .
qed

lemma distinct_registered_mtypes:
  assumes "distinct (map fst cd)"
  shows "distinct (registered_mtypes cd s)"
proof -
  have "inj_on fst (set (filter (\<lambda>k. snd k = s) (map fst cd)))"
    by (auto simp: inj_on_def)
  moreover have "distinct (filter (\<lambda>k. snd k = s) (map fst cd))"
    using assms by (rule distinct_filter)
  ultimately show ?thesis
    by (simp add: registered_mtypes_filter distinct_map)
qed

lemma registered_has_checker:
  "m \<in> set (registered_mtypes cd s) \<Longrightarrow> \<exists>chk. map_of cd (m, s) = Some chk"
  by (simp add: set_registered_mtypes) (metis map_of_eq_None_iff not_Some_eq)

lemma mtype_unfold:
  assumes "s \<in> snd ` fst ` set cd"
  shows "mtype cd f (Some x) (Some s) =
     (let res = filter (accepts cd (Some x) s) (registered_mtypes cd s) in
      if length res > 1 then Inl (TypeError_ambiguous res)
      else if length res < 1 then Inl TypeError_empty
      else Inr (Some (res ! 0)))"
proof -
  let ?ms = "registered_mtypes cd s"
  let ?h = "\<lambda>m. RBool (accepts cd (Some x) s m) :: 'b res"
  have reg: "\<not> s \<notin> set (remdups [snd x. x \<leftarrow> map fst cd])"
    using assms by (auto simp: image_iff)
  have "\<forall>m\<in>set ?ms. check_is cd f (Some x) (PStr m) (Some s) False ''obj'' = Inr (?h m)"
  proof
    fix m assume "m \<in> set ?ms"
    then obtain chk where chk: "map_of cd (m, s) = Some chk"
      by (auto dest: registered_has_checker)
    then show "check_is cd f (Some x) (PStr m) (Some s) False ''obj'' = Inr (?h m)"
      by (simp add: check_is_registered_plain accepts_def)
  qed
  then have coll: "collect [check_is cd f (Some x) (PStr m) (Some s) False ''obj''. m \<leftarrow> ?ms] =
                   Inr (map ?h ?ms)"
    by (rule collect_all_Inr)
  have pick: "[?ms ! i. i \<leftarrow> [0..<length ?ms], truthy (map ?h ?ms ! i)] =
              filter (accepts cd (Some x) s) ?ms"
    using pick_by_index [where xs = ?ms and P = truthy and h = ?h] by simp
  have cnt: "np_sum (map ?h ?ms) = length (filter (accepts cd (Some x) s) ?ms)"
    by (simp add: np_sum_def filter_map o_def)
  show ?thesis
    unfolding mtype_def option.case Let_def registered_mtypes_def [symmetric]
    using reg coll pick cnt
    by (simp add: Let_def)
qed

lemma accepted_set:
  assumes "distinct (map fst cd)"
  shows "set (filter (accepts cd obj s) (registered_mtypes cd s)) =
           {m. check_is cd f obj (PStr m) (Some s) False ''obj'' = Inr (RBool True)}"
    and "distinct (filter (accepts cd obj s) (registered_mtypes cd s))"
proof -
  have "accepts cd obj s m \<Longrightarrow> m \<in> set (registered_mtypes cd s)" for m
    by (auto simp: accepts_def set_registered_mtypes image_iff split: option.splits
        dest!: map_of_SomeD intro: rev_bexI)
  then have "set (filter (accepts cd obj s) (registered_mtypes cd s)) = {m. accepts cd obj s m}"
    by auto
  then show "set (filter (accepts cd obj s) (registered_mtypes cd s)) =
           {m. check_is cd f obj (PStr m) (Some s) False ''obj'' = Inr (RBool True)}"
    by (simp add: accepts_iff_check_is [of cd obj s _ f])
  show "distinct (filter (accepts cd obj s) (registered_mtypes cd s))"
    using assms by (simp add: distinct_registered_mtypes)
qed

text \<open>
  For an object other than \<^verbatim>\<open>None\<close>: the one mtype of \<open>C\<close> that validates
  it is what \<^verbatim>\<open>mtype\<close> returns.
\<close>

lemma mtype_round_trip_object:
  assumes "distinct (map fst cd)"
    and "check_is cd f (Some x) (PStr F) (Some C) False ''obj'' = Inr (RBool True)"
    and "\<forall>m. m \<noteq> F \<and> (m, C) \<in> fst ` set cd \<longrightarrow>
           check_is cd f (Some x) (PStr m) (Some C) False ''obj'' \<noteq> Inr (RBool True)"
  shows "mtype cd f (Some x) (Some C) = Inr (Some F)"
proof -
  let ?res = "filter (accepts cd (Some x) C) (registered_mtypes cd C)"
  have accF: "accepts cd (Some x) C F"
    using assms(2) by (simp add: accepts_iff_check_is [of cd "Some x" C F f])
  then have regF: "F \<in> set (registered_mtypes cd C)"
    using accepted_set(1) [OF assms(1), of "Some x" C f] assms(2) by auto
  then have C: "C \<in> snd ` fst ` set cd"
    by (force simp: set_registered_mtypes)
  have "set ?res = {m. check_is cd f (Some x) (PStr m) (Some C) False ''obj'' = Inr (RBool True)}"
    using accepted_set(1) [OF assms(1)] .
  also have "\<dots> = {F}"
  proof (rule set_eqI)
    fix m
    show "m \<in> {m. check_is cd f (Some x) (PStr m) (Some C) False ''obj'' = Inr (RBool True)}
          \<longleftrightarrow> m \<in> {F}"
    proof (cases "m = F")
      case True
      with assms(2) show ?thesis by simp
    next
      case False
      show ?thesis
      proof (cases "(m, C) \<in> fst ` set cd")
        case True
        with False assms(3) show ?thesis by simp
      next
        case unreg: False
        then have "map_of cd (m, C) = None"
          by (simp add: map_of_eq_None_iff)
        then have "check_is cd f (Some x) (PStr m) (Some C) False ''obj'' =
                   Inl (TypeError_no_check m C)"
          by (rule check_is_unregistered)
        with False show ?thesis by simp
      qed
    qed
  qed
  finally have setres: "set ?res = {F}" .
  moreover have "distinct ?res"
    using accepted_set(2) [OF assms(1)] .
  ultimately have "length ?res = 1"
    by (metis distinct_card card.empty card_insert_disjoint empty_iff finite.emptyI One_nat_def)
  then obtain y where y: "?res = [y]"
    by (cases ?res) auto
  with setres have "y = F" by auto
  with y mtype_unfold [OF C, of f x] show ?thesis by (simp add: Let_def)
qed

subsection \<open>The sample registry, evaluated\<close>

lemma sample_full_results:
  "check_is sample_dict sample_mtype_to_scitype (Some Univ_series)
     (PStr ''pd.Series'') None True ''input''
   = Inr (RTriple True PNone (Some [(''is_univariate'', True), (''is_equally_spaced'', True)]))"
  "check_is sample_dict sample_mtype_to_scitype (Some Nested_frame)
     (PList [PStr ''pd.Series'', PStr ''pd.DataFrame'']) None True ''input''
   = Inr (RTriple False
       (PList [PStr ''input must be a pd.Series'', PStr ''input must be a pd.DataFrame'']) None)"
  "check_is sample_dict sample_mtype_to_scitype (Some Nested_frame) (PInt 123) None True ''input''
   = Inl ValueError_mtype"
  by (simp_all add: sample_dict_eq check_is_def mtype_as_list_def sample_mtype_to_scitype_def
      sample_checker_def ret_def)

lemma sample_plain_results:
  "check_is sample_dict sample_mtype_to_scitype (Some Univ_series) (PStr m) (Some ''Series'') False ''obj''
     = Inr (RBool True) \<longleftrightarrow> m = ''pd.Series''"
  "check_is sample_dict sample_mtype_to_scitype (Some Nested_frame) (PStr m) (Some ''Series'') False ''obj''
     \<noteq> Inr (RBool True)"
  "check_is overlapping_dict sample_mtype_to_scitype (Some Univ_series) (PStr m) (Some ''Series'') False ''obj''
     = Inr (RBool True) \<longleftrightarrow> m = ''pd.Series'' \<or> m = ''anything''"
  unfolding accepts_iff_check_is [symmetric]
  by (auto simp: accepts_def sample_dict_eq overlapping_dict_eq sample_checker_def
      lenient_checker_def split: if_splits)

section \<open>Properties\<close>

text \<open>
  Claim C1. The claim: when \<^verbatim>\<open>scitype\<close> is omitted and a list of mtypes is given,
  each mtype's scitype is derived on its own from \<^verbatim>\<open>mtype_to_scitype\<close>, so
  that the mtypes of one call may belong to different scitypes (the docstring: "if inferred
  from mtype, list elements of mtype need not have same scitype"). The code assigns the
  local variable in line 89 at the first mtype and never again. Here the first mtype is a
  \<^verbatim>\<open>Series\<close> mtype that rejects the object and the second a
  \<^verbatim>\<open>Panel\<close> mtype that would pass it: the call raises the
  \<^verbatim>\<open>TypeError\<close> of line 92 for the pair
  \<^verbatim>\<open>(nested_univ, Series)\<close>, although \<^verbatim>\<open>mtype_to_scitype\<close> maps
  \<^verbatim>\<open>nested_univ\<close> to \<^verbatim>\<open>Panel\<close> and the same mtype alone is accepted.
\<close>

theorem check_is_sticky_scitype:
  "check_is sample_dict sample_mtype_to_scitype (Some Nested_frame)
     (PList [PStr ''pd.Series'', PStr ''nested_univ'']) None False ''obj''
   = Inl (TypeError_no_check ''nested_univ'' ''Series'') \<and>
   sample_mtype_to_scitype ''nested_univ'' = Inr ''Panel'' \<and>
   check_is sample_dict sample_mtype_to_scitype (Some Nested_frame)
     (PStr ''nested_univ'') None False ''obj''
   = Inr (RBool True)"
  by (simp add: sample_dict_eq check_is_def mtype_as_list_def sample_mtype_to_scitype_def
      sample_checker_def)

text \<open>
  Claim C2, amended. For every object other than \<^verbatim>\<open>None\<close> and every scitype
  \<open>s\<close> of the registry, \<^verbatim>\<open>mtype\<close> decides by the set of mtypes for which
  \<^verbatim>\<open>check_is(obj, mtype=m, scitype=s)\<close> is \<^verbatim>\<open>True\<close>: with more
  than one it raises the \<^verbatim>\<open>TypeError\<close> of line 182 listing exactly these
  mtypes, with none it raises \<^verbatim>\<open>TypeError("")\<close>, and with exactly one it
  returns that mtype. The registry is a dictionary, so its keys are distinct.
\<close>

theorem mtype_exactly_one:
  assumes "distinct (map fst cd)" and "s \<in> snd ` fst ` set cd"
  shows "finite {m. check_is cd f (Some x) (PStr m) (Some s) False ''obj'' = Inr (RBool True)} \<and>
    (1 < card {m. check_is cd f (Some x) (PStr m) (Some s) False ''obj'' = Inr (RBool True)} \<longrightarrow>
       (\<exists>res. mtype cd f (Some x) (Some s) = Inl (TypeError_ambiguous res) \<and>
          set res = {m. check_is cd f (Some x) (PStr m) (Some s) False ''obj'' = Inr (RBool True)})) \<and>
    ({m. check_is cd f (Some x) (PStr m) (Some s) False ''obj'' = Inr (RBool True)} = {} \<longrightarrow>
       mtype cd f (Some x) (Some s) = Inl TypeError_empty) \<and>
    (\<forall>F. {m. check_is cd f (Some x) (PStr m) (Some s) False ''obj'' = Inr (RBool True)} = {F} \<longrightarrow>
       mtype cd f (Some x) (Some s) = Inr (Some F))"
proof -
  let ?A = "{m. check_is cd f (Some x) (PStr m) (Some s) False ''obj'' = Inr (RBool True)}"
  let ?res = "filter (accepts cd (Some x) s) (registered_mtypes cd s)"
  have set_res: "set ?res = ?A" and dist: "distinct ?res"
    using accepted_set [OF assms(1)] by blast+
  have card: "card ?A = length ?res"
    using set_res dist distinct_card by metis
  have unfold: "mtype cd f (Some x) (Some s) =
      (if length ?res > 1 then Inl (TypeError_ambiguous ?res)
       else if length ?res < 1 then Inl TypeError_empty
       else Inr (Some (?res ! 0)))"
    using mtype_unfold [OF assms(2)] by (simp add: Let_def)
  have fin: "finite ?A"
    using set_res by (metis List.finite_set)
  have many: "1 < card ?A \<longrightarrow>
       (\<exists>res. mtype cd f (Some x) (Some s) = Inl (TypeError_ambiguous res) \<and> set res = ?A)"
    using unfold card set_res by auto
  have none: "?A = {} \<longrightarrow> mtype cd f (Some x) (Some s) = Inl TypeError_empty"
  proof
    assume "?A = {}"
    with card have "length ?res = 0" by simp
    with unfold show "mtype cd f (Some x) (Some s) = Inl TypeError_empty" by simp
  qed
  have one: "\<forall>F. ?A = {F} \<longrightarrow> mtype cd f (Some x) (Some s) = Inr (Some F)"
  proof (intro allI impI)
    fix F assume F: "?A = {F}"
    with card have len: "length ?res = 1" by simp
    then obtain y where y: "?res = [y]"
      by (cases ?res) auto
    with set_res F have "y = F" by auto
    with unfold y show "mtype cd f (Some x) (Some s) = Inr (Some F)" by simp
  qed
  from fin many none one show ?thesis by blast
qed

text \<open>
  The three outcomes on the sample registries: one match, no match, two matches.
\<close>

theorem mtype_exactly_one_witness:
  "distinct (map fst sample_dict) \<and> ''Series'' \<in> snd ` fst ` set sample_dict \<and>
   distinct (map fst overlapping_dict) \<and> ''Series'' \<in> snd ` fst ` set overlapping_dict \<and>
   {m. check_is sample_dict sample_mtype_to_scitype (Some Univ_series) (PStr m)
         (Some ''Series'') False ''obj'' = Inr (RBool True)} = {''pd.Series''} \<and>
   mtype sample_dict sample_mtype_to_scitype (Some Univ_series) (Some ''Series'')
     = Inr (Some ''pd.Series'') \<and>
   {m. check_is sample_dict sample_mtype_to_scitype (Some Nested_frame) (PStr m)
         (Some ''Series'') False ''obj'' = Inr (RBool True)} = {} \<and>
   mtype sample_dict sample_mtype_to_scitype (Some Nested_frame) (Some ''Series'')
     = Inl TypeError_empty \<and>
   1 < card {m. check_is overlapping_dict sample_mtype_to_scitype (Some Univ_series) (PStr m)
         (Some ''Series'') False ''obj'' = Inr (RBool True)} \<and>
   (\<exists>res. mtype overlapping_dict sample_mtype_to_scitype (Some Univ_series) (Some ''Series'')
        = Inl (TypeError_ambiguous res) \<and> set res = {''pd.Series'', ''anything''})"
proof -
  have s1: "distinct (map fst sample_dict)"
    unfolding sample_dict_def by (rule distinct_check_dict)
  have s2: "''Series'' \<in> snd ` fst ` set sample_dict"
    by (simp add: sample_dict_eq)
  have o1: "distinct (map fst overlapping_dict)"
    unfolding overlapping_dict_def by (rule distinct_check_dict)
  have o2: "''Series'' \<in> snd ` fst ` set overlapping_dict"
    by (simp add: overlapping_dict_eq)
  have one: "{m. check_is sample_dict sample_mtype_to_scitype (Some Univ_series) (PStr m)
         (Some ''Series'') False ''obj'' = Inr (RBool True)} = {''pd.Series''}"
    by (simp add: sample_plain_results)
  have none: "{m. check_is sample_dict sample_mtype_to_scitype (Some Nested_frame) (PStr m)
         (Some ''Series'') False ''obj'' = Inr (RBool True)} = {}"
    by (simp add: sample_plain_results)
  have two: "{m. check_is overlapping_dict sample_mtype_to_scitype (Some Univ_series) (PStr m)
         (Some ''Series'') False ''obj'' = Inr (RBool True)} = {''pd.Series'', ''anything''}"
    by (auto simp: sample_plain_results)
  then have many: "1 < card {m. check_is overlapping_dict sample_mtype_to_scitype (Some Univ_series)
         (PStr m) (Some ''Series'') False ''obj'' = Inr (RBool True)}"
    by simp
  note a = mtype_exactly_one [OF s1 s2, of sample_mtype_to_scitype Univ_series]
  note b = mtype_exactly_one [OF s1 s2, of sample_mtype_to_scitype Nested_frame]
  note c = mtype_exactly_one [OF o1 o2, of sample_mtype_to_scitype Univ_series]
  from a one have r1: "mtype sample_dict sample_mtype_to_scitype (Some Univ_series) (Some ''Series'')
     = Inr (Some ''pd.Series'')" by blast
  from b none have r2: "mtype sample_dict sample_mtype_to_scitype (Some Nested_frame) (Some ''Series'')
     = Inl TypeError_empty" by blast
  from c many two have r3: "\<exists>res. mtype overlapping_dict sample_mtype_to_scitype (Some Univ_series)
        (Some ''Series'') = Inl (TypeError_ambiguous res) \<and> set res = {''pd.Series'', ''anything''}"
    by simp
  from s1 s2 o1 o2 one r1 none r2 many r3 show ?thesis by blast
qed

text \<open>
  The claim as stated, for every object, fails at \<^verbatim>\<open>None\<close>: both
  \<^verbatim>\<open>Series\<close> checkers reject it, so no candidate validates, and still nothing is
  raised; \<^verbatim>\<open>mtype\<close> returns \<^verbatim>\<open>None\<close> in line 168.
\<close>

theorem mtype_None_skips_validation:
  "map fst sample_dict =
     [(''pd.Series'', ''Series''), (''pd.DataFrame'', ''Series''), (''nested_univ'', ''Panel'')] \<and>
   check_is sample_dict sample_mtype_to_scitype None (PStr ''pd.Series'') (Some ''Series'') False ''obj''
   = Inr (RBool False) \<and>
   check_is sample_dict sample_mtype_to_scitype None (PStr ''pd.DataFrame'') (Some ''Series'') False ''obj''
   = Inr (RBool False) \<and>
   mtype sample_dict sample_mtype_to_scitype None (Some ''Series'') = Inr None \<and>
   mtype sample_dict sample_mtype_to_scitype None (Some ''Series'') \<noteq> Inl TypeError_empty"
  by (simp add: sample_dict_eq check_is_def mtype_as_list_def sample_checker_def ret_def mtype_def)

text \<open>
  Claim C3. The claim: when an earlier mtype's checker rejects the object and a later
  mtype's checker passes it, \<^verbatim>\<open>check_is\<close> returns the result of the passing
  checker. The code does so only while the mtypes share one scitype (lemma
  \<open>check_is_first_success\<close>). With \<^verbatim>\<open>scitype\<close> omitted and mtypes of different
  scitypes it does not: \<^verbatim>\<open>pd.Series\<close> by itself rejects the nested frame,
  \<^verbatim>\<open>nested_univ\<close> by itself passes it and returns its metadata, and the call
  with the list of the two raises the \<^verbatim>\<open>TypeError\<close> of line 92, because line 89
  assigned \<^verbatim>\<open>Series\<close> at the first mtype and keeps it (the defect of C1).
\<close>

theorem check_is_mixed_list_no_first_success:
  "check_is sample_dict sample_mtype_to_scitype (Some Nested_frame)
     (PStr ''pd.Series'') None True ''obj''
   = Inr (RTriple False (PStr ''obj must be a pd.Series'') None) \<and>
   check_is sample_dict sample_mtype_to_scitype (Some Nested_frame)
     (PStr ''nested_univ'') None True ''obj''
   = Inr (RTriple True PNone (Some [(''is_univariate'', False), (''is_equally_spaced'', True)])) \<and>
   check_is sample_dict sample_mtype_to_scitype (Some Nested_frame)
     (PList [PStr ''pd.Series'', PStr ''nested_univ'']) None True ''obj''
   = Inl (TypeError_no_check ''nested_univ'' ''Series'')"
  by (simp add: sample_dict_eq check_is_def mtype_as_list_def sample_mtype_to_scitype_def
      sample_checker_def ret_def)

text \<open>
  Claim C4. The claim: with \<^verbatim>\<open>return_metadata=True\<close>, when no mtype validates
  the object, the result is \<^verbatim>\<open>(False, msg, None)\<close> with the messages of the
  mtypes in order. The code does so only while the mtypes share one scitype (lemma
  \<open>check_is_all_fail\<close>). With \<^verbatim>\<open>scitype\<close> omitted and mtypes of different
  scitypes it does not: \<^verbatim>\<open>pd.DataFrame\<close> by itself rejects the series with its
  message, \<^verbatim>\<open>nested_univ\<close> by itself rejects it with its message, and the call
  with the list of the two returns no messages but raises the \<^verbatim>\<open>TypeError\<close>
  of line 92 (the defect of C1).
\<close>

theorem check_is_mixed_list_no_messages:
  "check_is sample_dict sample_mtype_to_scitype (Some Univ_series)
     (PStr ''pd.DataFrame'') None True ''obj''
   = Inr (RTriple False (PStr ''obj must be a pd.DataFrame'') None) \<and>
   check_is sample_dict sample_mtype_to_scitype (Some Univ_series)
     (PStr ''nested_univ'') None True ''obj''
   = Inr (RTriple False (PStr ''obj must be a nested pd.DataFrame'') None) \<and>
   check_is sample_dict sample_mtype_to_scitype (Some Univ_series)
     (PList [PStr ''pd.DataFrame'', PStr ''nested_univ'']) None True ''obj''
   = Inl (TypeError_no_check ''nested_univ'' ''Series'')"
  by (simp add: sample_dict_eq check_is_def mtype_as_list_def sample_mtype_to_scitype_def
      sample_checker_def ret_def)

text \<open>
  Claim C5, amended. \<^verbatim>\<open>check_raise(obj, mtype, scitype, var_name)\<close> calls
  \<^verbatim>\<open>check_is\<close> with the same \<^verbatim>\<open>obj\<close>, \<^verbatim>\<open>mtype\<close>,
  \<^verbatim>\<open>scitype\<close> and \<^verbatim>\<open>var_name\<close> and with
  \<^verbatim>\<open>return_metadata=True\<close> (the defaults of \<^verbatim>\<open>var_name\<close> differ:
  \<^verbatim>\<open>"input"\<close> here, \<^verbatim>\<open>"obj"\<close> there). Whenever that call returns, it
  returns a triple, and \<^verbatim>\<open>check_raise\<close> returns \<^verbatim>\<open>True\<close> when the
  triple says valid and raises \<^verbatim>\<open>TypeError(msg)\<close> with the triple's message
  otherwise. Whenever that call raises, \<^verbatim>\<open>check_raise\<close> raises the same
  exception.
\<close>

theorem check_raise_follows_check_is:
  "(case check_is cd f obj mt scitype True vn of
      Inl e \<Rightarrow> check_raise cd f obj mt scitype vn = Inl e
    | Inr r \<Rightarrow>
        (\<exists>valid msg md. r = RTriple valid msg md \<and>
           check_raise cd f obj mt scitype vn =
             (if valid then Inr True else Inl (TypeError_msg msg))))"
proof (cases "check_is cd f obj mt scitype True vn")
  case (Inl e)
  then show ?thesis by (simp add: check_raise_def)
next
  case (Inr r)
  from check_is_full_mode [OF Inr] obtain valid msg md where r: "r = RTriple valid msg md"
    by blast
  with Inr show ?thesis by (simp add: check_raise_def)
qed

text \<open>
  A valid object, an invalid one, and a malformed \<^verbatim>\<open>mtype\<close> argument.
\<close>

theorem check_raise_follows_check_is_witness:
  "check_raise sample_dict sample_mtype_to_scitype (Some Univ_series)
     (PStr ''pd.Series'') None ''input'' = Inr True \<and>
   check_raise sample_dict sample_mtype_to_scitype (Some Nested_frame)
     (PList [PStr ''pd.Series'', PStr ''pd.DataFrame'']) None ''input''
   = Inl (TypeError_msg
       (PList [PStr ''input must be a pd.Series'', PStr ''input must be a pd.DataFrame''])) \<and>
   check_raise sample_dict sample_mtype_to_scitype (Some Nested_frame) (PInt 123) None ''input''
   = Inl ValueError_mtype"
  using
    check_raise_follows_check_is [of sample_dict sample_mtype_to_scitype "Some Univ_series"
      "PStr ''pd.Series''" None "''input''"]
    check_raise_follows_check_is [of sample_dict sample_mtype_to_scitype "Some Nested_frame"
      "PList [PStr ''pd.Series'', PStr ''pd.DataFrame'']" None "''input''"]
    check_raise_follows_check_is [of sample_dict sample_mtype_to_scitype "Some Nested_frame"
      "PInt 123" None "''input''"]
  by (auto simp add: sample_full_results)

text \<open>
  The claim as stated, for every argument, fails where \<^verbatim>\<open>check_is\<close> raises:
  \<^verbatim>\<open>check_raise\<close> then neither returns \<^verbatim>\<open>True\<close> nor raises the
  error that carries a message of \<^verbatim>\<open>check_is\<close>. For the mtype
  \<^verbatim>\<open>123\<close> it raises the \<^verbatim>\<open>ValueError\<close> of line 81, and for a pair of
  mtype and given scitype that is not in the registry the \<^verbatim>\<open>TypeError\<close> of
  line 92.
\<close>

theorem check_raise_passes_errors_on:
  "check_is sample_dict sample_mtype_to_scitype (Some Univ_series) (PInt 123) None True ''input''
   = Inl ValueError_mtype \<and>
   check_raise sample_dict sample_mtype_to_scitype (Some Univ_series) (PInt 123) None ''input''
   = Inl ValueError_mtype \<and>
   check_is sample_dict sample_mtype_to_scitype (Some Univ_series)
     (PStr ''nonexistent_format'') (Some ''Series'') True ''input''
   = Inl (TypeError_no_check ''nonexistent_format'' ''Series'') \<and>
   check_raise sample_dict sample_mtype_to_scitype (Some Univ_series)
     (PStr ''nonexistent_format'') (Some ''Series'') ''input''
   = Inl (TypeError_no_check ''nonexistent_format'' ''Series'')"
  by (simp add: sample_dict_eq check_raise_def check_is_def mtype_as_list_def)




text \<open>
  Claim C7. For every object: when \<^verbatim>\<open>check_is(obj, F, C)\<close> is
  \<^verbatim>\<open>True\<close> and it is not \<^verbatim>\<open>True\<close> for any other mtype registered
  under \<open>C\<close>, \<^verbatim>\<open>mtype(obj, C)\<close> returns \<open>F\<close>. The registry is a
  dictionary, so its keys are distinct, and none of its checkers passes
  \<^verbatim>\<open>None\<close>; an object that validates under \<open>F\<close> is therefore not
  \<^verbatim>\<open>None\<close>, and line 167 does not apply to it.
\<close>

theorem mtype_round_trip:
  assumes "distinct (map fst cd)"
    and "\<forall>kv\<in>set cd. \<not> plain (snd kv) None ''obj''"
    and "check_is cd f obj (PStr F) (Some C) False ''obj'' = Inr (RBool True)"
    and "\<forall>m. m \<noteq> F \<and> (m, C) \<in> fst ` set cd \<longrightarrow>
           check_is cd f obj (PStr m) (Some C) False ''obj'' \<noteq> Inr (RBool True)"
  shows "mtype cd f obj (Some C) = Inr (Some F)"
proof (cases obj)
  case None
  from assms(3) have "accepts cd obj C F"
    by (simp add: accepts_iff_check_is [of cd obj C F f])
  then obtain chk where chk: "map_of cd (F, C) = Some chk" and yes: "plain chk obj ''obj''"
    by (auto simp: accepts_def split: option.splits)
  from chk have "((F, C), chk) \<in> set cd"
    by (rule map_of_SomeD)
  with assms(2) have "\<not> plain chk None ''obj''"
    by force
  with yes None show ?thesis by simp
next
  case (Some x)
  with assms(1,3,4) show ?thesis
    by (simp add: mtype_round_trip_object)
qed

theorem mtype_round_trip_witness:
  "distinct (map fst sample_dict) \<and>
   list_all (\<lambda>kv. \<not> plain (snd kv) None ''obj'') sample_dict \<and>
   check_is sample_dict sample_mtype_to_scitype (Some Univ_series) (PStr ''pd.Series'')
     (Some ''Series'') False ''obj'' = Inr (RBool True) \<and>
   check_is sample_dict sample_mtype_to_scitype (Some Univ_series) (PStr ''pd.DataFrame'')
     (Some ''Series'') False ''obj'' \<noteq> Inr (RBool True) \<and>
   mtype sample_dict sample_mtype_to_scitype (Some Univ_series) (Some ''Series'')
   = Inr (Some ''pd.Series'')"
proof -
  have h1: "distinct (map fst sample_dict)"
    unfolding sample_dict_def by (rule distinct_check_dict)
  have h0: "list_all (\<lambda>kv. \<not> plain (snd kv) None ''obj'') sample_dict"
    by (simp add: sample_dict_eq sample_checker_def)
  then have h0': "\<forall>kv\<in>set sample_dict. \<not> plain (snd kv) None ''obj''"
    by (simp add: list_all_iff)
  have h2: "check_is sample_dict sample_mtype_to_scitype (Some Univ_series) (PStr ''pd.Series'')
     (Some ''Series'') False ''obj'' = Inr (RBool True)"
    by (simp add: sample_plain_results)
  have h3: "\<forall>m. m \<noteq> ''pd.Series'' \<and> (m, ''Series'') \<in> fst ` set sample_dict \<longrightarrow>
     check_is sample_dict sample_mtype_to_scitype (Some Univ_series) (PStr m)
       (Some ''Series'') False ''obj'' \<noteq> Inr (RBool True)"
    by (simp add: sample_plain_results)
  have h4: "check_is sample_dict sample_mtype_to_scitype (Some Univ_series) (PStr ''pd.DataFrame'')
     (Some ''Series'') False ''obj'' \<noteq> Inr (RBool True)"
    by (simp add: sample_plain_results)
  from mtype_round_trip [OF h1 h0' h2 h3] h1 h0 h2 h4 show ?thesis by simp
qed

text \<open>
  Claim C8. For a scitype of the registry, \<^verbatim>\<open>mtype(None, as_scitype=C)\<close>
  returns \<^verbatim>\<open>None\<close>, whatever the checkers of the registry would say.
\<close>

theorem mtype_None_registered:
  "C \<in> snd ` fst ` set cd \<Longrightarrow> mtype cd f None (Some C) = Inr None"
  by (simp add: mtype_def)

theorem mtype_None_registered_witness:
  "''Panel'' \<in> snd ` fst ` set sample_dict \<and>
   mtype sample_dict sample_mtype_to_scitype None (Some ''Panel'') = Inr None"
proof -
  have h: "''Panel'' \<in> snd ` fst ` set sample_dict"
    by (simp add: sample_dict_eq)
  from mtype_None_registered [OF h] h show ?thesis by simp
qed

text \<open>
  Claim C9. The test of line 167 comes before the test of line 172:
  \<^verbatim>\<open>mtype(None, as_scitype=S)\<close> returns \<^verbatim>\<open>None\<close> for every
  \<open>S\<close>, registered or not, given or not, while for an object other than
  \<^verbatim>\<open>None\<close> an unregistered scitype raises the \<^verbatim>\<open>TypeError\<close> of
  line 173.
\<close>

theorem mtype_None_any_scitype:
  "mtype cd f None S = Inr None \<and>
   (s \<notin> snd ` fst ` set cd \<longrightarrow> mtype cd f (Some x) (Some s) = Inl (TypeError_unsupported s))"
  by (auto simp: mtype_def image_iff)

theorem mtype_None_any_scitype_witness:
  "''Hierarchical'' \<notin> snd ` fst ` set sample_dict \<and>
   mtype sample_dict sample_mtype_to_scitype None (Some ''Hierarchical'') = Inr None \<and>
   mtype sample_dict sample_mtype_to_scitype None None = Inr None \<and>
   mtype sample_dict sample_mtype_to_scitype (Some Univ_series) (Some ''Hierarchical'')
   = Inl (TypeError_unsupported ''Hierarchical'')"
proof -
  have h: "''Hierarchical'' \<notin> snd ` fst ` set sample_dict"
    by (simp add: sample_dict_eq)
  from h
    mtype_None_any_scitype [of sample_dict sample_mtype_to_scitype "Some ''Hierarchical''"
      "''Hierarchical''" Univ_series]
    mtype_None_any_scitype [of sample_dict sample_mtype_to_scitype None
      "''Hierarchical''" Univ_series]
  show ?thesis by blast
qed

text \<open>
  Claim C10. With an empty list of mtypes \<^verbatim>\<open>check_is\<close> raises nothing and
  consults neither the registry nor \<^verbatim>\<open>mtype_to_scitype\<close> (the result is the
  same for all of them): it returns \<^verbatim>\<open>False\<close> without metadata and
  \<^verbatim>\<open>(False, [], None)\<close> with metadata, the message being the empty list.
\<close>

theorem check_is_empty_list:
  "check_is cd f obj (PList []) scitype False vn = Inr (RBool False) \<and>
   check_is cd f obj (PList []) scitype True vn = Inr (RTriple False (PList []) None)"
  by (simp add: check_is_def mtype_as_list_def ret_def)

end
